theory Spec2Isabelle
  imports Main "HOL-Library.Word"
begin

section \<open>The native DNS resolver of \<^verbatim>\<open>src/core/lib/iomgr/resolve_address_posix.cc\<close>\<close>

text \<open>
  The file implements \<^verbatim>\<open>NativeDNSResolver\<close>: a blocking lookup on top of the C library's
  \<^verbatim>\<open>getaddrinfo\<close>, an asynchronous wrapper that hands the blocking lookup to the event
  engine, two stubs for SRV and TXT records, and \<^verbatim>\<open>Cancel\<close>.

  Everything the functions touch outside their own locals is made explicit:
  \<^item> the collaborators declared in other headers (\<^verbatim>\<open>SplitHostPort\<close>, the C library's
    resolver, \<^verbatim>\<open>gai_strerror\<close>, \<^verbatim>\<open>kNullHandle\<close>, \<^verbatim>\<open>GRPC_MAX_SOCKADDR_SIZE\<close>) are the
    fields of a record \<open>env\<close> that every function takes as its first argument, and so
    is the resolver that \<^verbatim>\<open>GetDNSResolver()\<close> returns;
  \<^item> the effects (calls of \<^verbatim>\<open>getaddrinfo\<close>, chains handed out by it, calls of
    \<^verbatim>\<open>freeaddrinfo\<close>, closures given to the event engine, invocations of callbacks) are
    logged in a record \<open>world\<close> that is passed through.
\<close>

subsection \<open>Status values\<close>

text \<open>
  \<^verbatim>\<open>grpc_error_handle\<close> is \<^verbatim>\<open>absl::Status\<close> in this file (\<^verbatim>\<open>err = absl::OkStatus()\<close>,
  \<^verbatim>\<open>err.ok()\<close>): a code, a message and the properties attached by \<^verbatim>\<open>grpc_error_set_str\<close>
  and \<^verbatim>\<open>grpc_error_set_int\<close>. Only the property keys this file uses are listed.
\<close>

datatype StatusCode = kOk | kUnknown | kUnimplemented

datatype StatusStrProperty = kTargetAddress | kOsError | kSyscall

datatype StatusIntProperty = kErrorNo

record Status =
  code :: StatusCode
  message :: string
  str_props :: "StatusStrProperty \<rightharpoonup> string"
  int_props :: "StatusIntProperty \<rightharpoonup> int"

definition OkStatus :: Status where
  "OkStatus = \<lparr>code = kOk, message = [], str_props = Map.empty, int_props = Map.empty\<rparr>"

definition ok :: "Status \<Rightarrow> bool" where
  "ok st = (code st = kOk)"

definition UnimplementedError :: "string \<Rightarrow> Status" where
  "UnimplementedError m =
     \<lparr>code = kUnimplemented, message = m, str_props = Map.empty, int_props = Map.empty\<rparr>"

definition GRPC_ERROR_CREATE :: "string \<Rightarrow> Status" where
  \<comment> \<open>Modelled from the spec: the macro \<^verbatim>\<open>GRPC_ERROR_CREATE\<close> is defined outside this file.
      The spec's structured error is a message with a mapping of named properties; a
      freshly created error has the message and no property of the kinds used here, and
      it is not OK.\<close>
  "GRPC_ERROR_CREATE m =
     \<lparr>code = kUnknown, message = m, str_props = Map.empty, int_props = Map.empty\<rparr>"

definition grpc_error_set_str :: "Status \<Rightarrow> StatusStrProperty \<Rightarrow> string \<Rightarrow> Status" where
  \<comment> \<open>Modelled from the spec: \<^verbatim>\<open>grpc_error_set_str\<close> is defined outside this file. It
      stores a string under a named property of the error.\<close>
  "grpc_error_set_str e k v = e\<lparr>str_props := (str_props e)(k \<mapsto> v)\<rparr>"

definition grpc_error_set_int :: "Status \<Rightarrow> StatusIntProperty \<Rightarrow> int \<Rightarrow> Status" where
  \<comment> \<open>Modelled from the spec: \<^verbatim>\<open>grpc_error_set_int\<close> is defined outside this file. It
      stores an integer under a named property of the error.\<close>
  "grpc_error_set_int e k v = e\<lparr>int_props := (int_props e)(k \<mapsto> v)\<rparr>"

definition grpc_error_to_absl_status :: "Status \<Rightarrow> Status" where
  \<comment> \<open>Modelled from the spec: \<^verbatim>\<open>grpc_error_to_absl_status\<close> is defined outside this file.
      In the spec the blocking lookup fails with the structured error itself, its message
      and its properties (the target string, the error number, the error string, the
      name of the system call): the caller receives the error as it was built.\<close>
  "grpc_error_to_absl_status err = err"

subsection \<open>Addresses\<close>

text \<open>
  One node of the chain \<^verbatim>\<open>getaddrinfo\<close> returns: the bytes \<^verbatim>\<open>ai_addr\<close> points to and
  \<^verbatim>\<open>ai_addrlen\<close> (a \<^verbatim>\<open>socklen_t\<close>). The \<^verbatim>\<open>ai_next\<close> links are the list structure: a chain is
  an \<open>addrinfo list\<close>, and the null pointer is the chain with no node.
\<close>

record addrinfo =
  ai_addr :: "8 word list"
  ai_addrlen :: "32 word"

text \<open>
  \<^verbatim>\<open>grpc_resolved_address\<close>: a buffer \<^verbatim>\<open>addr\<close> of \<^verbatim>\<open>GRPC_MAX_SOCKADDR_SIZE\<close> bytes and its
  occupied length \<^verbatim>\<open>len\<close>. A byte of the buffer is \<open>Some b\<close> once it has been written and
  \<open>None\<close> while it is indeterminate: the source declares the variable without
  initialising it.
\<close>

record grpc_resolved_address =
  addr :: "8 word option list"
  len :: "32 word"

text \<open>
  A pointer to a chain: \<open>None\<close> is \<^verbatim>\<open>nullptr\<close>, \<open>Some (a, es)\<close> points to the chain with
  the nodes \<open>es\<close> that the resolver allocated under the identity \<open>a\<close>.
\<close>

type_synonym addrinfo_ptr = "(nat \<times> addrinfo list) option"

subsection \<open>Handles, callbacks and work items\<close>

text \<open>\<^verbatim>\<open>DNSResolver::TaskHandle\<close> is a pair of integers (\<^verbatim>\<open>return {-1, -1}\<close>).\<close>

type_synonym TaskHandle = "int \<times> int"

text \<open>
  A \<^verbatim>\<open>std::function\<close> callback is opaque to this file: it is identified by a number, and
  invoking it is logged together with the argument it receives. \<open>Indeterminate\<close> is the
  argument when the value to pass is not defined by the source (see \<open>memcpy_addr\<close>).
\<close>

type_synonym callback = nat

datatype cb_arg =
  Addresses "Status + grpc_resolved_address list"
| Text "Status + string"
| Indeterminate

text \<open>
  The three closures this file gives to \<^verbatim>\<open>EventEngine::Run\<close>, with what each captures.
\<close>

datatype work_item =
  DNSRequestItem string string callback
| SRVItem callback
| TXTItem callback

subsection \<open>The environment and the world\<close>

text \<open>
  The world: the log of the \<^verbatim>\<open>getaddrinfo\<close> calls (node and service), the identities of
  the chains handed out, the identities of the chains released, the closures waiting in
  the event engine, and the log of the callback invocations.
\<close>

record world =
  gai_calls :: "(string \<times> string) list"
  allocated :: "nat list"
  freed :: "nat list"
  run_queue :: "work_item list"
  cb_log :: "(callback \<times> cb_arg) list"

text \<open>
  \<^verbatim>\<open>GetDNSResolver()\<close> returns the resolver installed in the process: this one, or another
  implementation of the \<^verbatim>\<open>DNSResolver\<close> interface, of which only the blocking lookup matters
  here.
\<close>

datatype dns_resolver =
  NativeDNSResolver
| OtherDNSResolver
    "string \<Rightarrow> string \<Rightarrow> world \<Rightarrow> (Status + grpc_resolved_address list) option \<times> world"

text \<open>
  \<open>os_getaddrinfo\<close> is the C library's resolver: given the calls made so far, the node
  and the service, it answers with the return code and the nodes of the chain. The hints
  (\<^verbatim>\<open>AF_UNSPEC\<close>, \<^verbatim>\<open>SOCK_STREAM\<close>, \<^verbatim>\<open>AI_PASSIVE\<close>) are the same constants in every call of this
  file and are not an argument. \<open>SplitHostPort\<close> gives the values of \<^verbatim>\<open>host\<close> and \<^verbatim>\<open>port\<close>
  after the call (both are empty before it; the source ignores the boolean it returns).
  \<open>GRPC_MAX_SOCKADDR_SIZE\<close> is the number of bytes of the buffer of a
  \<^verbatim>\<open>grpc_resolved_address\<close>.
\<close>

record env =
  SplitHostPort :: "string \<Rightarrow> string \<times> string"
  os_getaddrinfo :: "(string \<times> string) list \<Rightarrow> string \<Rightarrow> string \<Rightarrow> int \<times> addrinfo list"
  gai_strerror :: "int \<Rightarrow> string"
  kNullHandle :: TaskHandle
  GRPC_MAX_SOCKADDR_SIZE :: nat
  GetDNSResolver :: dns_resolver

subsection \<open>The C library calls\<close>

text \<open>\<^verbatim>\<open>std::string::c_str\<close> read as a C string: the characters before the first NUL.\<close>

definition c_str :: "string \<Rightarrow> string" where
  "c_str s = takeWhile (\<lambda>c. c \<noteq> CHR 0x00) s"

text \<open>
  \<^verbatim>\<open>s = getaddrinfo(node, service, &hints, &result)\<close>. The call is logged. On success
  (return code 0) the chain is stored through the pointer: a chain with nodes is a fresh
  allocation, named by the number of the call, and a chain with no node is the null
  pointer. On failure the pointer keeps the value it had, and nothing is allocated.
\<close>

definition getaddrinfo ::
  "env \<Rightarrow> string \<Rightarrow> string \<Rightarrow> addrinfo_ptr \<Rightarrow> world \<Rightarrow> (int \<times> addrinfo_ptr) \<times> world" where
  "getaddrinfo env node service res w =
     (let (s, es) = os_getaddrinfo env (gai_calls w) node service;
          a = length (gai_calls w);
          w' = w\<lparr>gai_calls := gai_calls w @ [(node, service)]\<rparr>
      in if s \<noteq> 0 then ((s, res), w')
         else if es = [] then ((s, None), w')
         else ((s, Some (a, es)), w'\<lparr>allocated := allocated w' @ [a]\<rparr>))"

text \<open>\<^verbatim>\<open>freeaddrinfo(result)\<close> on a non-null pointer: the release is logged.\<close>

definition freeaddrinfo :: "nat \<times> addrinfo list \<Rightarrow> world \<Rightarrow> world" where
  "freeaddrinfo p w = w\<lparr>freed := freed w @ [fst p]\<rparr>"

subsection \<open>\<^verbatim>\<open>LookupHostnameBlocking\<close>\<close>

text \<open>The table of well-known service names (line 117).\<close>

definition svc :: "(string \<times> string) list" where
  "svc = [(''http'', ''80''), (''https'', ''443'')]"

text \<open>
  The retry loop (lines 118 to 125) over the rows of the table that are left: the first
  row whose name equals \<^verbatim>\<open>port\<close> calls \<^verbatim>\<open>getaddrinfo\<close> with its number and leaves the loop.
\<close>

fun retry_svc ::
  "env \<Rightarrow> string \<Rightarrow> string \<Rightarrow> (string \<times> string) list \<Rightarrow> int \<times> addrinfo_ptr \<Rightarrow> world
     \<Rightarrow> (int \<times> addrinfo_ptr) \<times> world" where
  "retry_svc env host port [] sr w = (sr, w)"
| "retry_svc env host port (row # rows) sr w =
     (if port = fst row then getaddrinfo env (c_str host) (snd row) (snd sr) w
      else retry_svc env host port rows sr w)"

text \<open>
  The body of the loop of the success path (lines 140 to 143):
  \<^verbatim>\<open>memcpy(&addr.addr, resp->ai_addr, resp->ai_addrlen)\<close> into the fresh buffer, then
  \<^verbatim>\<open>addr.len = resp->ai_addrlen\<close>. The source does not check the length. When
  \<^verbatim>\<open>ai_addrlen\<close> is more than the buffer holds, or more than the bytes \<^verbatim>\<open>ai_addr\<close> points
  to, the copy leaves its bounds and the behaviour of the source is undefined: the
  result is \<open>None\<close>. Otherwise the first \<^verbatim>\<open>ai_addrlen\<close> bytes of the buffer are the bytes
  copied and the others stay indeterminate.
\<close>

definition memcpy_addr :: "nat \<Rightarrow> addrinfo \<Rightarrow> grpc_resolved_address option" where
  "memcpy_addr cap resp =
     (let n = unat (ai_addrlen resp)
      in if n \<le> cap \<and> n \<le> length (ai_addr resp) then
           Some \<lparr>addr = map Some (take n (ai_addr resp)) @ replicate (cap - n) None,
                 len = ai_addrlen resp\<rparr>
         else None)"

text \<open>
  The loop itself (line 139): \<^verbatim>\<open>resp\<close> walks the chain and every node appends one
  address. The result is \<open>None\<close> as soon as one copy is undefined.
\<close>

fun fill_addrs ::
  "nat \<Rightarrow> addrinfo list \<Rightarrow> grpc_resolved_address list \<Rightarrow> grpc_resolved_address list option" where
  "fill_addrs cap [] addresses = Some addresses"
| "fill_addrs cap (resp # ai_next) addresses =
     (case memcpy_addr cap resp of
        None \<Rightarrow> None
      | Some address \<Rightarrow> fill_addrs cap ai_next (addresses @ [address]))"

definition chain :: "addrinfo_ptr \<Rightarrow> addrinfo list" where
  "chain p = (case p of None \<Rightarrow> [] | Some (a, es) \<Rightarrow> es)"

text \<open>
  The code after the label \<^verbatim>\<open>done\<close> (lines 146 to 154). \<open>addresses\<close> is \<open>None\<close> when the
  loop was undefined; the value returned is then \<open>None\<close> as well, and nothing is said
  about it. The release of the chain does not depend on the bytes copied.
\<close>

definition done_label ::
  "Status \<Rightarrow> grpc_resolved_address list option \<Rightarrow> addrinfo_ptr \<Rightarrow> world
     \<Rightarrow> (Status + grpc_resolved_address list) option \<times> world" where
  "done_label err addresses result w =
     (let w' = (case result of None \<Rightarrow> w | Some p \<Rightarrow> freeaddrinfo p w)
      in if ok err then (map_option Inr addresses, w')
         else (Some (Inl (grpc_error_to_absl_status err)), w'))"

text \<open>
  The function. The jumps to \<^verbatim>\<open>done\<close> are calls of \<open>done_label\<close>; the two nested tests of
  lines 99 and 100 are one condition, and past them \<^verbatim>\<open>port\<close> is the default port when it
  was empty. The \<^verbatim>\<open>ExecCtx\<close> and the markers of the blocking region have no effect on what
  is modelled. The value returned is \<open>Some\<close> of the \<^verbatim>\<open>StatusOr\<close> of the source, and
  \<open>None\<close> only when a copy of the success path is undefined.
\<close>

definition LookupHostnameBlocking ::
  "env \<Rightarrow> string \<Rightarrow> string \<Rightarrow> world
     \<Rightarrow> (Status + grpc_resolved_address list) option \<times> world" where
  "LookupHostnameBlocking env name default_port w =
     (let result = None;
          addresses = [];
          (host, port) = SplitHostPort env name
      in if host = [] then
           done_label
             (grpc_error_set_str (GRPC_ERROR_CREATE ''unparseable host:port'')
                kTargetAddress name)
             (Some addresses) result w
         else if port = [] \<and> default_port = [] then
           done_label
             (grpc_error_set_str (GRPC_ERROR_CREATE ''no port in name'')
                kTargetAddress name)
             (Some addresses) result w
         else
           let port = (if port = [] then default_port else port);
               (sr, w) = getaddrinfo env (c_str host) (c_str port) result w;
               (sr, w) = (if fst sr \<noteq> 0 then retry_svc env host port svc sr w else (sr, w));
               s = fst sr;
               result = snd sr
           in if s \<noteq> 0 then
                done_label
                  (grpc_error_set_str
                     (grpc_error_set_str
                        (grpc_error_set_str
                           (grpc_error_set_int (GRPC_ERROR_CREATE (gai_strerror env s))
                              kErrorNo s)
                           kOsError (gai_strerror env s))
                        kSyscall ''getaddrinfo'')
                     kTargetAddress name)
                  (Some addresses) result w
              else
                done_label OkStatus
                  (fill_addrs (GRPC_MAX_SOCKADDR_SIZE env) (chain result) addresses) result w)"

subsection \<open>The asynchronous entry points\<close>

text \<open>\<^verbatim>\<open>EventEngine::Run\<close>: the closure is queued, nothing of it runs in the caller.\<close>

definition Run :: "work_item \<Rightarrow> world \<Rightarrow> world" where
  "Run item w = w\<lparr>run_queue := run_queue w @ [item]\<rparr>"

text \<open>Invoking a callback with an argument.\<close>

definition invoke :: "callback \<Rightarrow> cb_arg \<Rightarrow> world \<Rightarrow> world" where
  "invoke cb arg w = w\<lparr>cb_log := cb_log w @ [(cb, arg)]\<rparr>"

text \<open>The virtual call \<^verbatim>\<open>GetDNSResolver()->LookupHostnameBlocking(name, default_port)\<close>.\<close>

definition DNSResolver_LookupHostnameBlocking ::
  "env \<Rightarrow> dns_resolver \<Rightarrow> string \<Rightarrow> string \<Rightarrow> world
     \<Rightarrow> (Status + grpc_resolved_address list) option \<times> world" where
  "DNSResolver_LookupHostnameBlocking env r =
     (case r of NativeDNSResolver \<Rightarrow> LookupHostnameBlocking env | OtherDNSResolver f \<Rightarrow> f)"

text \<open>The argument \<^verbatim>\<open>on_done\<close> receives for a result of the blocking lookup.\<close>

definition StatusOr_arg :: "(Status + grpc_resolved_address list) option \<Rightarrow> cb_arg" where
  "StatusOr_arg result = (case result of None \<Rightarrow> Indeterminate | Some r \<Rightarrow> Addresses r)"

text \<open>
  What each closure does when the event engine runs it. The execution contexts the
  closures set up first have no effect on what is modelled.
\<close>

fun run_item :: "env \<Rightarrow> work_item \<Rightarrow> world \<Rightarrow> world" where
  "run_item env (DNSRequestItem name default_port on_done) w =
     (let (result, w') =
            DNSResolver_LookupHostnameBlocking env (GetDNSResolver env) name default_port w
      in invoke on_done (StatusOr_arg result) w')"
| "run_item env (SRVItem on_resolved) w =
     invoke on_resolved
       (Addresses (Inl (UnimplementedError
          ''The Native resolver does not support looking up SRV records''))) w"
| "run_item env (TXTItem on_resolved) w =
     invoke on_resolved
       (Text (Inl (UnimplementedError
          ''The Native resolver does not support looking up TXT records''))) w"

definition NativeDNSRequest :: "string \<Rightarrow> string \<Rightarrow> callback \<Rightarrow> world \<Rightarrow> world" where
  "NativeDNSRequest name default_port on_done w = Run (DNSRequestItem name default_port on_done) w"

definition LookupHostname ::
  "env \<Rightarrow> callback \<Rightarrow> string \<Rightarrow> string \<Rightarrow> int \<Rightarrow> nat option \<Rightarrow> string \<Rightarrow> world
     \<Rightarrow> TaskHandle \<times> world" where
  "LookupHostname env on_done name default_port timeout interested_parties name_server w =
     (kNullHandle env, NativeDNSRequest name default_port on_done w)"

definition LookupSRV ::
  "env \<Rightarrow> callback \<Rightarrow> string \<Rightarrow> int \<Rightarrow> nat option \<Rightarrow> string \<Rightarrow> world \<Rightarrow> TaskHandle \<times> world" where
  "LookupSRV env on_resolved name timeout interested_parties name_server w =
     ((-1, -1), Run (SRVItem on_resolved) w)"

definition LookupTXT ::
  "env \<Rightarrow> callback \<Rightarrow> string \<Rightarrow> int \<Rightarrow> nat option \<Rightarrow> string \<Rightarrow> world \<Rightarrow> TaskHandle \<times> world" where
  "LookupTXT env on_resolved name timeout interested_parties name_server w =
     ((-1, -1), Run (TXTItem on_resolved) w)"

definition Cancel :: "TaskHandle \<Rightarrow> bool" where
  "Cancel handle = False"

subsection \<open>A test double for the collaborators\<close>

text \<open>
  The concrete instances below are evaluated on a small environment: a splitter that cuts
  at the first colon, and a resolver that knows no service names (it fails with -8 on
  them), knows no host called \<open>nohost\<close> (it fails with -2), answers with two nodes for
  numeric ports, and with no node for the host \<open>void\<close>. They stand for no code of the
  repository.
\<close>

definition example_split :: "string \<Rightarrow> string \<times> string" where
  "example_split s =
     (takeWhile (\<lambda>c. c \<noteq> CHR '':'') s, drop 1 (dropWhile (\<lambda>c. c \<noteq> CHR '':'') s))"

definition example_chain :: "addrinfo list" where
  "example_chain =
     [\<lparr>ai_addr = [2, 0, 0, 80, 127, 0, 0, 1, 0, 0, 0, 0, 0, 0, 0, 0], ai_addrlen = 16\<rparr>,
      \<lparr>ai_addr = [10, 0, 0, 80, 0, 0, 0, 0, 1], ai_addrlen = 8\<rparr>]"

definition example_os :: "(string \<times> string) list \<Rightarrow> string \<Rightarrow> string \<Rightarrow> int \<times> addrinfo list" where
  "example_os calls node service =
     (if node = ''nohost'' then (-2, [])
      else if service = ''80'' \<or> service = ''443'' then
        (if node = ''void'' then (0, []) else (0, example_chain))
      else (-8, []))"

definition example_env :: env where
  "example_env =
     \<lparr>SplitHostPort = example_split, os_getaddrinfo = example_os,
      gai_strerror = (\<lambda>s. if s = -2 then ''Name or service not known''
                          else ''Servname not supported for ai_socktype''),
      kNullHandle = (0, 0), GRPC_MAX_SOCKADDR_SIZE = 128,
      GetDNSResolver = NativeDNSResolver\<rparr>"

text \<open>
  The same environment with another resolver installed, whose blocking lookup finds no
  address for any name, and the two addresses of \<open>example_chain\<close> in a buffer of 128
  bytes.
\<close>

definition example_other_env :: env where
  "example_other_env =
     example_env\<lparr>GetDNSResolver := OtherDNSResolver (\<lambda>name default_port w. (Some (Inr []), w))\<rparr>"

definition example_addresses :: "grpc_resolved_address list" where
  "example_addresses =
     [\<lparr>addr = map Some [2, 0, 0, 80, 127, 0, 0, 1, 0, 0, 0, 0, 0, 0, 0, 0] @ replicate 112 None,
       len = 16\<rparr>,
      \<lparr>addr = map Some [10, 0, 0, 80, 0, 0, 0, 0] @ replicate 120 None, len = 8\<rparr>]"

definition world0 :: world where
  "world0 = \<lparr>gai_calls = [], allocated = [], freed = [], run_queue = [], cb_log = []\<rparr>"

section \<open>Properties\<close>

subsection \<open>Auxiliary facts\<close>

text \<open>The copy of a node whose length fits, and the loop over a chain of such nodes.\<close>

lemma memcpy_addr_fits:
  assumes "unat (ai_addrlen e) \<le> cap" and "unat (ai_addrlen e) \<le> length (ai_addr e)"
  shows "memcpy_addr cap e =
     Some \<lparr>addr = map Some (take (unat (ai_addrlen e)) (ai_addr e))
                    @ replicate (cap - unat (ai_addrlen e)) None,
           len = ai_addrlen e\<rparr>"
  using assms by (simp add: memcpy_addr_def Let_def)

lemma memcpy_addr_undefined:
  assumes "cap < unat (ai_addrlen e) \<or> length (ai_addr e) < unat (ai_addrlen e)"
  shows "memcpy_addr cap e = None"
  using assms by (auto simp add: memcpy_addr_def Let_def)

lemma fill_addrs_fits:
  assumes "\<forall>e\<in>set es. unat (ai_addrlen e) \<le> cap \<and> unat (ai_addrlen e) \<le> length (ai_addr e)"
  shows "fill_addrs cap es acc =
     Some (acc @ map (\<lambda>e. \<lparr>addr = map Some (take (unat (ai_addrlen e)) (ai_addr e))
                                   @ replicate (cap - unat (ai_addrlen e)) None,
                             len = ai_addrlen e\<rparr>) es)"
  using assms
proof (induction es arbitrary: acc)
  case Nil
  show ?case
    by simp
next
  case (Cons e es)
  from Cons.prems have "unat (ai_addrlen e) \<le> cap" and "unat (ai_addrlen e) \<le> length (ai_addr e)"
    by simp_all
  then have m: "memcpy_addr cap e =
     Some \<lparr>addr = map Some (take (unat (ai_addrlen e)) (ai_addr e))
                    @ replicate (cap - unat (ai_addrlen e)) None,
           len = ai_addrlen e\<rparr>"
    by (rule memcpy_addr_fits)
  from Cons.prems have "\<forall>e\<in>set es. unat (ai_addrlen e) \<le> cap \<and> unat (ai_addrlen e) \<le> length (ai_addr e)"
    by simp
  from Cons.IH [OF this] show ?case
    by (simp add: m)
qed

lemma fill_addrs_undefined:
  assumes "\<exists>e\<in>set es. cap < unat (ai_addrlen e) \<or> length (ai_addr e) < unat (ai_addrlen e)"
  shows "fill_addrs cap es acc = None"
  using assms
proof (induction es arbitrary: acc)
  case Nil
  then show ?case
    by simp
next
  case (Cons e es)
  show ?case
  proof (cases "memcpy_addr cap e")
    case None
    then show ?thesis
      by simp
  next
    case (Some address)
    with memcpy_addr_undefined [of cap e]
    have "\<not> (cap < unat (ai_addrlen e) \<or> length (ai_addr e) < unat (ai_addrlen e))"
      by auto
    with Cons.prems
    have "\<exists>e\<in>set es. cap < unat (ai_addrlen e) \<or> length (ai_addr e) < unat (ai_addrlen e)"
      by auto
    from Cons.IH [OF this] Some show ?thesis
      by simp
  qed
qed

lemma fill_addrs_chain:
  assumes "\<forall>e\<in>set es. unat (ai_addrlen e) \<le> cap \<and> unat (ai_addrlen e) \<le> length (ai_addr e)"
  shows "fill_addrs cap (chain (if es = [] then None else Some (a, es))) [] =
     Some (map (\<lambda>e. \<lparr>addr = map Some (take (unat (ai_addrlen e)) (ai_addr e))
                             @ replicate (cap - unat (ai_addrlen e)) None,
                       len = ai_addrlen e\<rparr>) es)"
  using fill_addrs_fits [OF assms, of "[]"] by (simp add: chain_def)

text \<open>The calls of \<^verbatim>\<open>getaddrinfo\<close> and the code after the label.\<close>

lemma getaddrinfo_calls:
  "gai_calls (snd (getaddrinfo env node service res w)) = gai_calls w @ [(node, service)]"
  by (simp add: getaddrinfo_def Let_def split: prod.splits)

lemma getaddrinfo_code:
  "fst (fst (getaddrinfo env node service res w)) =
     fst (os_getaddrinfo env (gai_calls w) node service)"
  by (simp add: getaddrinfo_def Let_def split: prod.splits)

lemma done_label_calls: "gai_calls (snd (done_label err as res w)) = gai_calls w"
  by (simp add: done_label_def freeaddrinfo_def Let_def split: option.splits)

lemma done_label_error:
  "\<not> ok err \<Longrightarrow> done_label err as None w = (Some (Inl err), w)"
  by (simp add: done_label_def grpc_error_to_absl_status_def)

lemma done_label_fst:
  "fst (done_label err as res w) = (if ok err then map_option Inr as else Some (Inl err))"
  by (simp add: done_label_def Let_def grpc_error_to_absl_status_def)

lemma done_label_snd:
  "snd (done_label err as res w) = (case res of None \<Rightarrow> w | Some p \<Rightarrow> freeaddrinfo p w)"
  by (simp add: done_label_def Let_def)

text \<open>The loop over the two rows of the table, unrolled.\<close>

lemma retry_svc_svc:
  "retry_svc env host port svc sr w =
     (if port = ''http'' then getaddrinfo env (c_str host) ''80'' (snd sr) w
      else if port = ''https'' then getaddrinfo env (c_str host) ''443'' (snd sr) w
      else (sr, w))"
  by (simp add: svc_def)

lemma parse_error_eq:
  "grpc_error_set_str (GRPC_ERROR_CREATE m) kTargetAddress name =
     \<lparr>code = kUnknown, message = m, str_props = [kTargetAddress \<mapsto> name],
        int_props = Map.empty\<rparr>"
  by (simp add: grpc_error_set_str_def GRPC_ERROR_CREATE_def)

lemma os_error_eq:
  "grpc_error_set_str
     (grpc_error_set_str
        (grpc_error_set_str (grpc_error_set_int (GRPC_ERROR_CREATE m) kErrorNo s) kOsError m)
        kSyscall ''getaddrinfo'')
     kTargetAddress name =
   \<lparr>code = kUnknown, message = m,
      str_props = [kOsError \<mapsto> m, kSyscall \<mapsto> ''getaddrinfo'', kTargetAddress \<mapsto> name],
      int_props = [kErrorNo \<mapsto> s]\<rparr>"
  by (simp add: grpc_error_set_str_def grpc_error_set_int_def GRPC_ERROR_CREATE_def)

text \<open>
  Past the two parse checks the function is the first call, the retry when the first call
  failed, and the code after the label.
\<close>

lemma LookupHostnameBlocking_resolve:
  assumes "SplitHostPort env name = (host, p)" and "host \<noteq> []"
    and "port = (if p = [] then default_port else p)" and "port \<noteq> []"
  shows "LookupHostnameBlocking env name default_port w =
    (let g1 = getaddrinfo env (c_str host) (c_str port) None w;
         g2 = (if fst (fst g1) \<noteq> 0 then retry_svc env host port svc (fst g1) (snd g1) else g1);
         s = fst (fst g2)
     in if s \<noteq> 0 then
          done_label
            (grpc_error_set_str
               (grpc_error_set_str
                  (grpc_error_set_str
                     (grpc_error_set_int (GRPC_ERROR_CREATE (gai_strerror env s)) kErrorNo s)
                     kOsError (gai_strerror env s))
                  kSyscall ''getaddrinfo'')
               kTargetAddress name)
            (Some []) (snd (fst g2)) (snd g2)
        else done_label OkStatus
               (fill_addrs (GRPC_MAX_SOCKADDR_SIZE env) (chain (snd (fst g2))) [])
               (snd (fst g2)) (snd g2))"
  using assms
  by (cases "p = []") (simp_all add: LookupHostnameBlocking_def Let_def case_prod_beta)

text \<open>The functions below the parse do not look at the splitter.\<close>

lemma getaddrinfo_upd: "getaddrinfo (env\<lparr>SplitHostPort := f\<rparr>) = getaddrinfo env"
  by (intro ext) (simp add: getaddrinfo_def)

lemma retry_svc_upd:
  "retry_svc (env\<lparr>SplitHostPort := f\<rparr>) host port rows sr w = retry_svc env host port rows sr w"
  by (induction rows) (simp_all add: getaddrinfo_upd)

text \<open>What one call of \<^verbatim>\<open>getaddrinfo\<close> does, by its return code.\<close>

lemma getaddrinfo_fail:
  assumes "os_getaddrinfo env (gai_calls w) node service = (s, es)" and "s \<noteq> 0"
  shows "getaddrinfo env node service res w =
           ((s, res), w\<lparr>gai_calls := gai_calls w @ [(node, service)]\<rparr>)"
  using assms by (simp add: getaddrinfo_def)

lemma getaddrinfo_success:
  assumes "os_getaddrinfo env (gai_calls w) node service = (0, es)"
  shows "fst (getaddrinfo env node service res w) = (0, if es = [] then None else Some (length (gai_calls w), es))"
  using assms by (simp add: getaddrinfo_def Let_def)

lemma retry_svc_row:
  assumes "port = ''http'' \<and> num = ''80'' \<or> port = ''https'' \<and> num = ''443''"
  shows "retry_svc env host port svc sr w = getaddrinfo env (c_str host) num (snd sr) w"
  using assms by (auto simp add: svc_def)

lemma retry_svc_other:
  assumes "port \<noteq> ''http''" and "port \<noteq> ''https''"
  shows "retry_svc env host port svc sr w = (sr, w)"
  using assms by (simp add: svc_def)

text \<open>The lookup touches neither the queue of the event engine nor the callbacks.\<close>

lemma getaddrinfo_queues:
  "run_queue (snd (getaddrinfo env node service res w)) = run_queue w
   \<and> cb_log (snd (getaddrinfo env node service res w)) = cb_log w"
  by (simp add: getaddrinfo_def Let_def split: prod.splits)

lemma retry_svc_queues:
  "run_queue (snd (retry_svc env host port rows sr w)) = run_queue w
   \<and> cb_log (snd (retry_svc env host port rows sr w)) = cb_log w"
  by (induction rows) (simp_all add: getaddrinfo_queues)

lemma done_label_queues:
  "run_queue (snd (done_label err as res w)) = run_queue w
   \<and> cb_log (snd (done_label err as res w)) = cb_log w"
  by (simp add: done_label_snd freeaddrinfo_def split: option.splits)

lemma LookupHostnameBlocking_queues:
  "run_queue (snd (LookupHostnameBlocking env name default_port w)) = run_queue w
   \<and> cb_log (snd (LookupHostnameBlocking env name default_port w)) = cb_log w"
proof -
  obtain host p where sp: "SplitHostPort env name = (host, p)"
    by (cases "SplitHostPort env name")
  show ?thesis
  proof (cases "host = [] \<or> (p = [] \<and> default_port = [])")
    case True
    with sp show ?thesis
      by (auto simp add: LookupHostnameBlocking_def Let_def done_label_queues)
  next
    case False
    with sp have r: "host \<noteq> []" "(if p = [] then default_port else p) \<noteq> []"
      by auto
    show ?thesis
      unfolding LookupHostnameBlocking_resolve [OF sp r(1) refl r(2)]
      by (simp add: Let_def done_label_queues retry_svc_queues getaddrinfo_queues)
  qed
qed

lemma c_str_http: "c_str ''http'' = ''http''" "c_str ''https'' = ''https''"
  by (simp_all add: c_str_def)

text \<open>Allocation and release, step by step.\<close>

lemma getaddrinfo_alloc:
  "freed (snd (getaddrinfo env node service None w)) = freed w
   \<and> allocated (snd (getaddrinfo env node service None w)) =
       allocated w @ (case snd (fst (getaddrinfo env node service None w)) of
                        None \<Rightarrow> [] | Some p \<Rightarrow> [fst p])"
  by (simp add: getaddrinfo_def Let_def split: prod.splits)

lemma getaddrinfo_failed_ptr:
  "fst (fst (getaddrinfo env node service res w)) \<noteq> 0 \<Longrightarrow>
     snd (fst (getaddrinfo env node service res w)) = res
     \<and> allocated (snd (getaddrinfo env node service res w)) = allocated w"
  by (simp add: getaddrinfo_def Let_def split: prod.splits if_splits)

lemma done_label_release:
  "allocated (snd (done_label err as res w)) = allocated w
   \<and> freed (snd (done_label err as res w)) =
       freed w @ (case res of None \<Rightarrow> [] | Some p \<Rightarrow> [fst p])"
  by (simp add: done_label_snd freeaddrinfo_def split: option.splits)

text \<open>Lookups of the test double, evaluated.\<close>

lemma example_lookup_http:
  "LookupHostnameBlocking example_env ''localhost:http'' [] world0 =
     (Some (Inr example_addresses),
      \<lparr>gai_calls = [(''localhost'', ''http''), (''localhost'', ''80'')],
         allocated = [1], freed = [1], run_queue = [], cb_log = []\<rparr>)"
  by (simp add: LookupHostnameBlocking_def example_env_def example_split_def example_os_def
      example_chain_def example_addresses_def world0_def c_str_def getaddrinfo_def svc_def
      done_label_def freeaddrinfo_def chain_def memcpy_addr_def OkStatus_def ok_def Let_def)

lemma example_other_lookup_http:
  "LookupHostnameBlocking example_other_env ''localhost:http'' [] world0 =
     LookupHostnameBlocking example_env ''localhost:http'' [] world0"
  by (simp add: LookupHostnameBlocking_def example_other_env_def example_env_def
      example_split_def example_os_def example_chain_def world0_def c_str_def getaddrinfo_def
      svc_def done_label_def freeaddrinfo_def chain_def memcpy_addr_def OkStatus_def ok_def
      Let_def)

subsection \<open>The blocking lookup\<close>

text \<open>
  C1. Once the target has a host and an effective port (the parsed port, or the default
  port when the parsed one is empty), the calls of \<^verbatim>\<open>getaddrinfo\<close> made by one
  \<^verbatim>\<open>LookupHostnameBlocking\<close> are: the call for the host and the effective port; then,
  only if that call failed, one call with \<open>80\<close> when the effective port is \<open>http\<close>, or
  one call with \<open>443\<close> when it is \<open>https\<close>; and nothing else. So a failed first call is
  retried exactly once for these two port strings, never for another port string, and
  there is never a second retry.
\<close>

theorem LookupHostnameBlocking_retry_once:
  assumes "SplitHostPort env name = (host, p)" and "host \<noteq> []"
    and "port = (if p = [] then default_port else p)" and "port \<noteq> []"
  shows "gai_calls (snd (LookupHostnameBlocking env name default_port w)) =
     gai_calls w @ (c_str host, c_str port) #
       (if fst (os_getaddrinfo env (gai_calls w) (c_str host) (c_str port)) = 0 then []
        else if port = ''http'' then [(c_str host, ''80'')]
        else if port = ''https'' then [(c_str host, ''443'')]
        else [])"
  unfolding LookupHostnameBlocking_resolve [OF assms]
  by (simp add: Let_def retry_svc_svc done_label_calls getaddrinfo_calls getaddrinfo_code)

theorem LookupHostnameBlocking_retry_once_witness:
  "SplitHostPort example_env ''localhost:http'' = (''localhost'', ''http'')
   \<and> gai_calls (snd (LookupHostnameBlocking example_env ''localhost:http'' [] world0)) =
       [(''localhost'', ''http''), (''localhost'', ''80'')]"
proof -
  have h: "SplitHostPort example_env ''localhost:http'' = (''localhost'', ''http'')"
    by (simp add: example_env_def example_split_def)
  from LookupHostnameBlocking_retry_once [OF h, of "''http''" "[]" world0]
  have "gai_calls (snd (LookupHostnameBlocking example_env ''localhost:http'' [] world0)) =
       [(''localhost'', ''http''), (''localhost'', ''80'')]"
    by (simp add: example_env_def example_os_def world0_def c_str_def)
  with h show ?thesis by simp
qed

text \<open>
  C3. When the splitter leaves the host empty, \<^verbatim>\<open>LookupHostnameBlocking\<close> returns the
  error with the message \<open>unparseable host:port\<close> and the target string as the property
  \<^verbatim>\<open>kTargetAddress\<close>, whatever the default port is; the world is unchanged, so
  \<^verbatim>\<open>getaddrinfo\<close> is not called.
\<close>

theorem LookupHostnameBlocking_unparseable:
  assumes "fst (SplitHostPort env name) = []"
  shows "LookupHostnameBlocking env name default_port w =
     (Some (Inl \<lparr>code = kUnknown, message = ''unparseable host:port'',
                 str_props = [kTargetAddress \<mapsto> name], int_props = Map.empty\<rparr>), w)"
  using assms
  by (simp add: LookupHostnameBlocking_def Let_def case_prod_beta parse_error_eq
      done_label_error ok_def)

theorem LookupHostnameBlocking_unparseable_witness:
  "fst (SplitHostPort example_env '':80'') = []
   \<and> LookupHostnameBlocking example_env '':80'' ''443'' world0 =
     (Some (Inl \<lparr>code = kUnknown, message = ''unparseable host:port'',
                 str_props = [kTargetAddress \<mapsto> '':80''], int_props = Map.empty\<rparr>), world0)"
proof -
  have h: "fst (SplitHostPort example_env '':80'') = []"
    by (simp add: example_env_def example_split_def)
  from h LookupHostnameBlocking_unparseable [OF h, of "''443''" world0]
  show ?thesis
    by simp
qed

text \<open>
  C2. When the splitter gives a host and an empty port: with an empty default port,
  \<^verbatim>\<open>LookupHostnameBlocking\<close> returns the error with the message \<open>no port in name\<close> and
  the target string as the property \<^verbatim>\<open>kTargetAddress\<close>, and the world is unchanged (no
  call of \<^verbatim>\<open>getaddrinfo\<close>); with a non-empty default port, the lookup is the lookup of a
  splitter that had returned the default port as the port, and its first call of
  \<^verbatim>\<open>getaddrinfo\<close> asks for the host and the default port.
\<close>

theorem LookupHostnameBlocking_missing_port:
  assumes "SplitHostPort env name = (host, [])" and "host \<noteq> []"
  shows "(default_port = [] \<longrightarrow>
            LookupHostnameBlocking env name default_port w =
              (Some (Inl \<lparr>code = kUnknown, message = ''no port in name'',
                          str_props = [kTargetAddress \<mapsto> name], int_props = Map.empty\<rparr>), w))
       \<and> (default_port \<noteq> [] \<longrightarrow>
            LookupHostnameBlocking env name default_port w =
              LookupHostnameBlocking (env\<lparr>SplitHostPort := \<lambda>n. (host, default_port)\<rparr>)
                name default_port w
          \<and> take 1 (drop (length (gai_calls w))
               (gai_calls (snd (LookupHostnameBlocking env name default_port w)))) =
              [(c_str host, c_str default_port)])"
proof (intro conjI impI)
  assume "default_port = []"
  with assms show "LookupHostnameBlocking env name default_port w =
              (Some (Inl \<lparr>code = kUnknown, message = ''no port in name'',
                          str_props = [kTargetAddress \<mapsto> name], int_props = Map.empty\<rparr>), w)"
    by (simp add: LookupHostnameBlocking_def Let_def parse_error_eq done_label_error ok_def)
next
  assume dp: "default_port \<noteq> []"
  let ?env' = "env\<lparr>SplitHostPort := \<lambda>n. (host, default_port)\<rparr>"
  show "LookupHostnameBlocking env name default_port w =
          LookupHostnameBlocking ?env' name default_port w"
    using assms dp
    by (simp add: LookupHostnameBlocking_def Let_def getaddrinfo_upd retry_svc_upd
        cong: if_cong)
  have "gai_calls (snd (LookupHostnameBlocking env name default_port w)) =
     gai_calls w @ (c_str host, c_str default_port) #
       (if fst (os_getaddrinfo env (gai_calls w) (c_str host) (c_str default_port)) = 0 then []
        else if default_port = ''http'' then [(c_str host, ''80'')]
        else if default_port = ''https'' then [(c_str host, ''443'')]
        else [])"
    unfolding LookupHostnameBlocking_resolve [OF assms, of default_port default_port, simplified, OF dp]
    by (simp add: Let_def retry_svc_svc done_label_calls getaddrinfo_calls getaddrinfo_code)
  then show "take 1 (drop (length (gai_calls w))
               (gai_calls (snd (LookupHostnameBlocking env name default_port w)))) =
              [(c_str host, c_str default_port)]"
    by simp
qed

theorem LookupHostnameBlocking_missing_port_witness:
  "SplitHostPort example_env ''localhost'' = (''localhost'', [])
   \<and> LookupHostnameBlocking example_env ''localhost'' [] world0 =
       (Some (Inl \<lparr>code = kUnknown, message = ''no port in name'',
                   str_props = [kTargetAddress \<mapsto> ''localhost''], int_props = Map.empty\<rparr>),
        world0)
   \<and> take 1 (gai_calls (snd (LookupHostnameBlocking example_env ''localhost'' ''443'' world0))) =
       [(''localhost'', ''443'')]"
proof -
  have h: "SplitHostPort example_env ''localhost'' = (''localhost'', [])"
    by (simp add: example_env_def example_split_def)
  have n: "''localhost'' \<noteq> []"
    by simp
  from LookupHostnameBlocking_missing_port [OF h n, of "[]" world0]
  have a: "LookupHostnameBlocking example_env ''localhost'' [] world0 =
       (Some (Inl \<lparr>code = kUnknown, message = ''no port in name'',
                   str_props = [kTargetAddress \<mapsto> ''localhost''], int_props = Map.empty\<rparr>),
        world0)"
    by simp
  from LookupHostnameBlocking_missing_port
         [OF h n, of "''443''" world0, THEN conjunct2, THEN mp, THEN conjunct2]
  have b: "take 1 (gai_calls (snd (LookupHostnameBlocking example_env ''localhost'' ''443'' world0))) =
       [(''localhost'', ''443'')]"
    by (simp add: world0_def c_str_def)
  from h a b show ?thesis by simp
qed

text \<open>
  C4. With a host and an effective port: when the first \<^verbatim>\<open>getaddrinfo\<close> call succeeds,
  or when it fails, the port is \<open>http\<close> or \<open>https\<close> and the retry with \<open>80\<close> or
  \<open>443\<close> succeeds, and every node of the chain of the successful call has an
  \<^verbatim>\<open>ai_addrlen\<close> that is at most the size of the buffer and at most the number of bytes
  \<^verbatim>\<open>ai_addr\<close> points to (as the C library guarantees), \<^verbatim>\<open>LookupHostnameBlocking\<close> returns
  success with one address for every node, in the order of the chain: the first
  \<^verbatim>\<open>ai_addrlen\<close> bytes of its buffer are the first \<^verbatim>\<open>ai_addrlen\<close> bytes of the node's
  address, the other bytes are indeterminate, and its length is \<^verbatim>\<open>ai_addrlen\<close>. A chain
  with no node gives the empty sequence, not an error.
\<close>

theorem LookupHostnameBlocking_success:
  assumes "SplitHostPort env name = (host, p)" and "host \<noteq> []"
    and "port = (if p = [] then default_port else p)" and "port \<noteq> []"
    and "os_getaddrinfo env (gai_calls w) (c_str host) (c_str port) = (s1, es1)"
    and "os_getaddrinfo env (gai_calls w @ [(c_str host, c_str port)]) (c_str host) num = (s2, es2)"
    and "cap = GRPC_MAX_SOCKADDR_SIZE env"
  shows "(s1 = 0
          \<and> (\<forall>e\<in>set es1. unat (ai_addrlen e) \<le> cap \<and> unat (ai_addrlen e) \<le> length (ai_addr e))
          \<longrightarrow>
            fst (LookupHostnameBlocking env name default_port w) =
              Some (Inr (map (\<lambda>e. \<lparr>addr = map Some (take (unat (ai_addrlen e)) (ai_addr e))
                                            @ replicate (cap - unat (ai_addrlen e)) None,
                                      len = ai_addrlen e\<rparr>) es1)))
       \<and> (s1 \<noteq> 0 \<and> (port = ''http'' \<and> num = ''80'' \<or> port = ''https'' \<and> num = ''443'') \<and> s2 = 0
          \<and> (\<forall>e\<in>set es2. unat (ai_addrlen e) \<le> cap \<and> unat (ai_addrlen e) \<le> length (ai_addr e))
          \<longrightarrow>
            fst (LookupHostnameBlocking env name default_port w) =
              Some (Inr (map (\<lambda>e. \<lparr>addr = map Some (take (unat (ai_addrlen e)) (ai_addr e))
                                            @ replicate (cap - unat (ai_addrlen e)) None,
                                      len = ai_addrlen e\<rparr>) es2)))
       \<and> (s1 = 0 \<and> es1 = [] \<longrightarrow> fst (LookupHostnameBlocking env name default_port w) = Some (Inr []))"
proof -
  let ?w1 = "w\<lparr>gai_calls := gai_calls w @ [(c_str host, c_str port)]\<rparr>"
  let ?copy = "\<lambda>e. \<lparr>addr = map Some (take (unat (ai_addrlen e)) (ai_addr e))
                         @ replicate (cap - unat (ai_addrlen e)) None,
                   len = ai_addrlen e\<rparr>"
  have okst: "ok OkStatus"
    by (simp add: ok_def OkStatus_def)
  have first: "fst (LookupHostnameBlocking env name default_port w) = Some (Inr (map ?copy es1))"
    if "s1 = 0"
      and fits: "\<forall>e\<in>set es1. unat (ai_addrlen e) \<le> cap \<and> unat (ai_addrlen e) \<le> length (ai_addr e)"
  proof -
    from assms(5) that(1)
    have "fst (getaddrinfo env (c_str host) (c_str port) None w) =
            (0, if es1 = [] then None else Some (length (gai_calls w), es1))"
      by (simp add: getaddrinfo_success)
    then show ?thesis
      unfolding LookupHostnameBlocking_resolve [OF assms(1-4)] assms(7) [symmetric]
      by (simp add: Let_def done_label_fst okst fill_addrs_chain [OF fits])
  qed
  have second: "fst (LookupHostnameBlocking env name default_port w) = Some (Inr (map ?copy es2))"
    if "s1 \<noteq> 0" and row: "port = ''http'' \<and> num = ''80'' \<or> port = ''https'' \<and> num = ''443''"
      and "s2 = 0"
      and fits: "\<forall>e\<in>set es2. unat (ai_addrlen e) \<le> cap \<and> unat (ai_addrlen e) \<le> length (ai_addr e)"
  proof -
    from assms(5) that(1)
    have g1: "getaddrinfo env (c_str host) (c_str port) None w = ((s1, None), ?w1)"
      by (rule getaddrinfo_fail)
    from assms(6) that(3)
    have g2: "fst (getaddrinfo env (c_str host) num None ?w1) =
            (0, if es2 = [] then None else Some (length (gai_calls ?w1), es2))"
      by (simp add: getaddrinfo_success)
    show ?thesis
      unfolding LookupHostnameBlocking_resolve [OF assms(1-4)] assms(7) [symmetric]
      by (simp add: Let_def g1 that(1) retry_svc_row [OF row] g2 done_label_fst okst
          fill_addrs_chain [OF fits])
  qed
  have none: "fst (LookupHostnameBlocking env name default_port w) = Some (Inr [])"
    if "s1 = 0" and "es1 = []"
    using first [OF that(1)] that(2) by simp
  from first second none show ?thesis
    by blast
qed

theorem LookupHostnameBlocking_success_witness:
  "fst (LookupHostnameBlocking example_env ''localhost:https'' [] world0) =
     Some (Inr
       [\<lparr>addr = map Some [2, 0, 0, 80, 127, 0, 0, 1, 0, 0, 0, 0, 0, 0, 0, 0] @ replicate 112 None,
         len = 16\<rparr>,
        \<lparr>addr = map Some [10, 0, 0, 80, 0, 0, 0, 0] @ replicate 120 None, len = 8\<rparr>])
   \<and> fst (LookupHostnameBlocking example_env ''void:80'' [] world0) = Some (Inr [])"
proof -
  have a: "SplitHostPort example_env ''localhost:https'' = (''localhost'', ''https'')"
    by (simp add: example_env_def example_split_def)
  have a5: "os_getaddrinfo example_env (gai_calls world0) (c_str ''localhost'') (c_str ''https'') =
              (-8, [])"
    by (simp add: example_env_def example_os_def c_str_def)
  have a6: "os_getaddrinfo example_env
              (gai_calls world0 @ [(c_str ''localhost'', c_str ''https'')]) (c_str ''localhost'')
              ''443'' = (0, example_chain)"
    by (simp add: example_env_def example_os_def c_str_def)
  have c: "128 = GRPC_MAX_SOCKADDR_SIZE example_env"
    by (simp add: example_env_def)
  have fits: "\<forall>e\<in>set example_chain.
                unat (ai_addrlen e) \<le> 128 \<and> unat (ai_addrlen e) \<le> length (ai_addr e)"
    by (simp add: example_chain_def)
  have b: "SplitHostPort example_env ''void:80'' = (''void'', ''80'')"
    by (simp add: example_env_def example_split_def)
  have b5: "os_getaddrinfo example_env (gai_calls world0) (c_str ''void'') (c_str ''80'') = (0, [])"
    by (simp add: example_env_def example_os_def c_str_def)
  have b6: "os_getaddrinfo example_env
              (gai_calls world0 @ [(c_str ''void'', c_str ''80'')]) (c_str ''void'') ''80'' = (0, [])"
    by (simp add: example_env_def example_os_def c_str_def)
  from LookupHostnameBlocking_success
         [where default_port = "[]", OF a _ _ _ a5 a6 c, THEN conjunct2, THEN conjunct1] fits
  have 1: "fst (LookupHostnameBlocking example_env ''localhost:https'' [] world0) =
     Some (Inr
       [\<lparr>addr = map Some [2, 0, 0, 80, 127, 0, 0, 1, 0, 0, 0, 0, 0, 0, 0, 0] @ replicate 112 None,
         len = 16\<rparr>,
        \<lparr>addr = map Some [10, 0, 0, 80, 0, 0, 0, 0] @ replicate 120 None, len = 8\<rparr>])"
    by (simp add: example_chain_def)
  from LookupHostnameBlocking_success
         [where default_port = "[]", OF b _ _ _ b5 b6 c, THEN conjunct2, THEN conjunct2]
  have 2: "fst (LookupHostnameBlocking example_env ''void:80'' [] world0) = Some (Inr [])"
    by simp
  from 1 2 show ?thesis
    by simp
qed

text \<open>
  C5. With a host and an effective port: when the first \<^verbatim>\<open>getaddrinfo\<close> call fails with
  code \<open>s\<close> and the port is neither \<open>http\<close> nor \<open>https\<close>, or when it fails, the port
  is \<open>http\<close> or \<open>https\<close> and the retry fails with code \<open>s\<close>, \<^verbatim>\<open>LookupHostnameBlocking\<close>
  returns the error whose message is \<^verbatim>\<open>gai_strerror(s)\<close> and whose properties are
  \<^verbatim>\<open>kErrorNo\<close> = \<open>s\<close>, \<^verbatim>\<open>kOsError\<close> = \<^verbatim>\<open>gai_strerror(s)\<close>, \<^verbatim>\<open>kSyscall\<close> = \<open>getaddrinfo\<close> and
  \<^verbatim>\<open>kTargetAddress\<close> = the target.
\<close>

theorem LookupHostnameBlocking_os_failure:
  assumes "SplitHostPort env name = (host, p)" and "host \<noteq> []"
    and "port = (if p = [] then default_port else p)" and "port \<noteq> []"
    and "os_getaddrinfo env (gai_calls w) (c_str host) (c_str port) = (s1, es1)"
    and "os_getaddrinfo env (gai_calls w @ [(c_str host, c_str port)]) (c_str host) num = (s2, es2)"
    and "err = (\<lambda>s. \<lparr>code = kUnknown, message = gai_strerror env s,
                     str_props = [kOsError \<mapsto> gai_strerror env s, kSyscall \<mapsto> ''getaddrinfo'',
                                  kTargetAddress \<mapsto> name],
                     int_props = [kErrorNo \<mapsto> s]\<rparr>)"
  shows "(s1 \<noteq> 0 \<and> port \<noteq> ''http'' \<and> port \<noteq> ''https'' \<longrightarrow>
            fst (LookupHostnameBlocking env name default_port w) = Some (Inl (err s1)))
       \<and> (s1 \<noteq> 0 \<and> (port = ''http'' \<and> num = ''80'' \<or> port = ''https'' \<and> num = ''443'') \<and> s2 \<noteq> 0 \<longrightarrow>
            fst (LookupHostnameBlocking env name default_port w) = Some (Inl (err s2)))"
proof -
  let ?w1 = "w\<lparr>gai_calls := gai_calls w @ [(c_str host, c_str port)]\<rparr>"
  have g1: "getaddrinfo env (c_str host) (c_str port) None w = ((s1, None), ?w1)" if "s1 \<noteq> 0"
    using assms(5) that by (rule getaddrinfo_fail)
  have first: "fst (LookupHostnameBlocking env name default_port w) = Some (Inl (err s1))"
    if "s1 \<noteq> 0" and "port \<noteq> ''http''" and "port \<noteq> ''https''"
    unfolding LookupHostnameBlocking_resolve [OF assms(1-4)] assms(7) os_error_eq
    by (simp add: Let_def g1 that retry_svc_other done_label_fst ok_def)
  have second: "fst (LookupHostnameBlocking env name default_port w) = Some (Inl (err s2))"
    if "s1 \<noteq> 0" and row: "port = ''http'' \<and> num = ''80'' \<or> port = ''https'' \<and> num = ''443''"
      and "s2 \<noteq> 0"
  proof -
    from assms(6) that(3)
    have g2: "getaddrinfo env (c_str host) num None ?w1 =
                ((s2, None), ?w1\<lparr>gai_calls := gai_calls ?w1 @ [(c_str host, num)]\<rparr>)"
      by (intro getaddrinfo_fail) simp_all
    show ?thesis
      unfolding LookupHostnameBlocking_resolve [OF assms(1-4)] assms(7) os_error_eq
      by (simp add: Let_def g1 that(1,3) retry_svc_row [OF row] g2 done_label_fst ok_def)
  qed
  from first second show ?thesis
    by blast
qed

theorem LookupHostnameBlocking_os_failure_witness:
  "fst (LookupHostnameBlocking example_env ''nohost:http'' [] world0) =
     Some (Inl \<lparr>code = kUnknown, message = ''Name or service not known'',
                str_props = [kOsError \<mapsto> ''Name or service not known'',
                             kSyscall \<mapsto> ''getaddrinfo'', kTargetAddress \<mapsto> ''nohost:http''],
                int_props = [kErrorNo \<mapsto> -2]\<rparr>)"
proof -
  have a: "SplitHostPort example_env ''nohost:http'' = (''nohost'', ''http'')"
    by (simp add: example_env_def example_split_def)
  have a5: "os_getaddrinfo example_env (gai_calls world0) (c_str ''nohost'') (c_str ''http'') =
              (-2, [])"
    by (simp add: example_env_def example_os_def c_str_def)
  have a6: "os_getaddrinfo example_env
              (gai_calls world0 @ [(c_str ''nohost'', c_str ''http'')]) (c_str ''nohost'')
              ''80'' = (-2, [])"
    by (simp add: example_env_def example_os_def c_str_def)
  from LookupHostnameBlocking_os_failure [where default_port = "[]", OF a _ _ _ a5 a6 refl]
  show ?thesis
    by (simp add: example_env_def)
qed

text \<open>
  C8. The retry is decided on the effective port. When the target has a host and no
  port, the default port is \<open>http\<close> (or \<open>https\<close>) and the first \<^verbatim>\<open>getaddrinfo\<close> call
  fails, the calls of the lookup are the call with the default port and the retry with
  \<open>80\<close> (or \<open>443\<close>). A target that the splitter cuts into the same host and that
  service name as its port leaves the same world behind (the same calls, allocations
  and releases), whatever default port it is given, and succeeds with the same
  addresses, or fails as well, or is undefined as well.
\<close>

theorem LookupHostnameBlocking_default_port_service:
  assumes "SplitHostPort env name = (host, [])" and "host \<noteq> []"
    and "default_port = ''http'' \<and> num = ''80'' \<or> default_port = ''https'' \<and> num = ''443''"
    and "fst (os_getaddrinfo env (gai_calls w) (c_str host) default_port) \<noteq> 0"
    and "SplitHostPort env name2 = (host, default_port)"
  shows "gai_calls (snd (LookupHostnameBlocking env name default_port w)) =
           gai_calls w @ [(c_str host, default_port), (c_str host, num)]
       \<and> snd (LookupHostnameBlocking env name2 default_port2 w) =
           snd (LookupHostnameBlocking env name default_port w)
       \<and> (\<forall>as. (fst (LookupHostnameBlocking env name2 default_port2 w) = Some (Inr as)) =
                 (fst (LookupHostnameBlocking env name default_port w) = Some (Inr as)))
       \<and> (fst (LookupHostnameBlocking env name2 default_port2 w) = None) =
           (fst (LookupHostnameBlocking env name default_port w) = None)"
proof -
  from assms(3) have ne: "default_port \<noteq> []" and cs: "c_str default_port = default_port"
    by (auto simp add: c_str_http)
  have p1: "default_port = (if [] = [] then default_port else [])"
    by simp
  have p2: "default_port = (if default_port = [] then default_port2 else default_port)"
    using ne by simp
  note r1 = LookupHostnameBlocking_resolve [OF assms(1,2) p1 ne]
  note r2 = LookupHostnameBlocking_resolve [OF assms(5) assms(2) p2 ne]
  have calls: "gai_calls (snd (LookupHostnameBlocking env name default_port w)) =
           gai_calls w @ [(c_str host, default_port), (c_str host, num)]"
    unfolding r1 using assms(4)
    by (simp add: Let_def cs getaddrinfo_code retry_svc_row [OF assms(3)] done_label_calls
        getaddrinfo_calls)
  have worlds: "snd (LookupHostnameBlocking env name2 default_port2 w) =
           snd (LookupHostnameBlocking env name default_port w)"
    unfolding r1 r2 by (simp add: Let_def done_label_snd)
  have results: "(fst (LookupHostnameBlocking env name2 default_port2 w) = Some (Inr as)) =
                 (fst (LookupHostnameBlocking env name default_port w) = Some (Inr as))" for as
    unfolding r1 r2 by (simp add: Let_def done_label_fst os_error_eq ok_def OkStatus_def)
  have undefined: "(fst (LookupHostnameBlocking env name2 default_port2 w) = None) =
                 (fst (LookupHostnameBlocking env name default_port w) = None)"
    unfolding r1 r2 by (simp add: Let_def done_label_fst os_error_eq ok_def OkStatus_def)
  from calls worlds results undefined show ?thesis
    by blast
qed

theorem LookupHostnameBlocking_default_port_service_witness:
  "gai_calls (snd (LookupHostnameBlocking example_env ''localhost'' ''https'' world0)) =
     [(''localhost'', ''https''), (''localhost'', ''443'')]
   \<and> snd (LookupHostnameBlocking example_env ''localhost:https'' ''8080'' world0) =
       snd (LookupHostnameBlocking example_env ''localhost'' ''https'' world0)"
proof -
  have a: "SplitHostPort example_env ''localhost'' = (''localhost'', [])"
    by (simp add: example_env_def example_split_def)
  have b: "SplitHostPort example_env ''localhost:https'' = (''localhost'', ''https'')"
    by (simp add: example_env_def example_split_def)
  have f: "fst (os_getaddrinfo example_env (gai_calls world0) (c_str ''localhost'') ''https'') \<noteq> 0"
    by (simp add: example_env_def example_os_def c_str_def)
  have n: "''localhost'' \<noteq> []"
    by simp
  have r: "''https'' = ''http'' \<and> ''443'' = ''80'' \<or> ''https'' = ''https'' \<and> ''443'' = ''443''"
    by simp
  from LookupHostnameBlocking_default_port_service [OF a n r f b, of "''8080''"]
  show ?thesis
    by (simp add: world0_def c_str_def)
qed

text \<open>
  C9. For every target, default port and world, the chains allocated by
  \<^verbatim>\<open>getaddrinfo\<close> during one \<^verbatim>\<open>LookupHostnameBlocking\<close> are the chains released by
  \<^verbatim>\<open>freeaddrinfo\<close> during it, each once, and there is at most one: in the world the
  function returns, the allocation log and the release log have grown by the same
  identities. This covers the two parse failures (nothing allocated, nothing released),
  the failure of the resolver and the success.
\<close>

theorem LookupHostnameBlocking_releases:
  "\<exists>ids. allocated (snd (LookupHostnameBlocking env name default_port w)) = allocated w @ ids
        \<and> freed (snd (LookupHostnameBlocking env name default_port w)) = freed w @ ids
        \<and> length ids \<le> 1"
proof -
  obtain host p where sp: "SplitHostPort env name = (host, p)"
    by (cases "SplitHostPort env name")
  show ?thesis
  proof (cases "host = [] \<or> (p = [] \<and> default_port = [])")
    case True
    with sp have "allocated (snd (LookupHostnameBlocking env name default_port w)) = allocated w @ []
        \<and> freed (snd (LookupHostnameBlocking env name default_port w)) = freed w @ []"
      by (auto simp add: LookupHostnameBlocking_def Let_def done_label_release)
    then show ?thesis
      by (intro exI [of _ "[]"]) simp
  next
    case False
    with sp have r: "host \<noteq> []" "(if p = [] then default_port else p) \<noteq> []"
      by auto
    define port where "port = (if p = [] then default_port else p)"
    define g1 where "g1 = getaddrinfo env (c_str host) (c_str port) None w"
    define g2 where
      "g2 = (if fst (fst g1) \<noteq> 0 then retry_svc env host port svc (fst g1) (snd g1) else g1)"
    define ids where "ids = (case snd (fst g2) of None \<Rightarrow> [] | Some q \<Rightarrow> [fst q])"
    have a1: "freed (snd g1) = freed w"
      "allocated (snd g1) = allocated w @ (case snd (fst g1) of None \<Rightarrow> [] | Some q \<Rightarrow> [fst q])"
      unfolding g1_def using getaddrinfo_alloc [of env "c_str host" "c_str port" w] by simp_all
    have a2: "freed (snd g2) = freed w \<and> allocated (snd g2) = allocated w @ ids"
    proof (cases "fst (fst g1) \<noteq> 0")
      case False
      then show ?thesis
        by (simp add: g2_def ids_def a1)
    next
      case True
      then have n: "snd (fst g1) = None" and al: "allocated (snd g1) = allocated w"
        unfolding g1_def using getaddrinfo_failed_ptr [of env "c_str host" "c_str port" None w]
        by (simp_all add: getaddrinfo_alloc)
      show ?thesis
        using True n al a1(1)
          getaddrinfo_alloc [of env "c_str host" "''80''" "snd g1"]
          getaddrinfo_alloc [of env "c_str host" "''443''" "snd g1"]
        by (simp add: g2_def ids_def retry_svc_svc)
    qed
    have "allocated (snd (LookupHostnameBlocking env name default_port w)) = allocated w @ ids
        \<and> freed (snd (LookupHostnameBlocking env name default_port w)) = freed w @ ids"
      unfolding LookupHostnameBlocking_resolve [OF sp r(1) port_def r(2) [folded port_def]]
      using a2
      by (simp add: Let_def done_label_release g1_def [symmetric] g2_def [symmetric] ids_def)
    moreover have "length ids \<le> 1"
      by (simp add: ids_def split: option.splits)
    ultimately show ?thesis
      by blast
  qed
qed

theorem LookupHostnameBlocking_releases_witness:
  "allocated (snd (LookupHostnameBlocking example_env ''localhost:http'' [] world0)) = [1]
   \<and> freed (snd (LookupHostnameBlocking example_env ''localhost:http'' [] world0)) = [1]"
proof -
  from LookupHostnameBlocking_releases [of example_env "''localhost:http''" "[]" world0]
  obtain ids where
    "allocated (snd (LookupHostnameBlocking example_env ''localhost:http'' [] world0)) =
       allocated world0 @ ids"
    and "freed (snd (LookupHostnameBlocking example_env ''localhost:http'' [] world0)) =
       freed world0 @ ids"
    by blast
  moreover have "allocated (snd (LookupHostnameBlocking example_env ''localhost:http'' [] world0)) = [1]"
    by (simp add: example_lookup_http)
  ultimately show ?thesis
    by (simp add: world0_def)
qed

subsection \<open>The asynchronous entry points\<close>

text \<open>
  C6, as the source has it. \<^verbatim>\<open>LookupHostname\<close> returns \<^verbatim>\<open>kNullHandle\<close> and changes the
  world only by appending one closure to the event engine's queue: no callback has been
  invoked and \<^verbatim>\<open>getaddrinfo\<close> has not been called when it returns. The closure, run in
  any world, calls the blocking lookup of the resolver that \<^verbatim>\<open>GetDNSResolver()\<close> returns,
  with the captured name and default port, then invokes \<^verbatim>\<open>on_done\<close> once with the result
  of that lookup. When the installed resolver is this one, the result is the one of
  \<^verbatim>\<open>LookupHostnameBlocking\<close> on the name and the default port, and the callback log
  grows by this one invocation; when another resolver is installed, the result is the
  one of that resolver's blocking lookup. The timeout, the interested parties and the
  name server do not matter.
\<close>

theorem LookupHostname_schedules:
  "LookupHostname env on_done name default_port timeout interested_parties name_server w =
     (kNullHandle env, w\<lparr>run_queue := run_queue w @ [DNSRequestItem name default_port on_done]\<rparr>)
   \<and> (GetDNSResolver env = NativeDNSResolver \<longrightarrow>
        run_item env (DNSRequestItem name default_port on_done) w' =
          (snd (LookupHostnameBlocking env name default_port w'))
            \<lparr>cb_log := cb_log w' @
               [(on_done, StatusOr_arg (fst (LookupHostnameBlocking env name default_port w')))]\<rparr>)
   \<and> (GetDNSResolver env = OtherDNSResolver f \<longrightarrow>
        run_item env (DNSRequestItem name default_port on_done) w' =
          (snd (f name default_port w'))
            \<lparr>cb_log := cb_log (snd (f name default_port w')) @
               [(on_done, StatusOr_arg (fst (f name default_port w')))]\<rparr>)
   \<and> LookupHostname env on_done name default_port timeout2 interested_parties2 name_server2 w =
       LookupHostname env on_done name default_port timeout interested_parties name_server w"
  by (simp add: LookupHostname_def NativeDNSRequest_def Run_def invoke_def case_prod_beta
      DNSResolver_LookupHostnameBlocking_def LookupHostnameBlocking_queues)

theorem LookupHostname_schedules_witness:
  "LookupHostname example_env 7 ''localhost:http'' [] 100 None ''8.8.8.8'' world0 =
     ((0, 0), world0\<lparr>run_queue := [DNSRequestItem ''localhost:http'' [] 7]\<rparr>)
   \<and> run_item example_env (DNSRequestItem ''localhost:http'' [] 7) world0 =
       \<lparr>gai_calls = [(''localhost'', ''http''), (''localhost'', ''80'')],
          allocated = [1], freed = [1], run_queue = [],
          cb_log = [(7, Addresses (Inr example_addresses))]\<rparr>
   \<and> run_item example_other_env (DNSRequestItem ''localhost:http'' [] 7) world0 =
       world0\<lparr>cb_log := [(7, Addresses (Inr []))]\<rparr>"
proof -
  have n: "GetDNSResolver example_env = NativeDNSResolver"
    by (simp add: example_env_def)
  have o: "GetDNSResolver example_other_env =
             OtherDNSResolver (\<lambda>name default_port w. (Some (Inr []), w))"
    by (simp add: example_other_env_def)
  have k: "kNullHandle example_env = (0, 0)"
    by (simp add: example_env_def)
  note t = LookupHostname_schedules [of example_env 7 "''localhost:http''" "[]" 100 None
      "''8.8.8.8''" world0 world0]
  from t [THEN conjunct1]
  have 1: "LookupHostname example_env 7 ''localhost:http'' [] 100 None ''8.8.8.8'' world0 =
     ((0, 0), world0\<lparr>run_queue := [DNSRequestItem ''localhost:http'' [] 7]\<rparr>)"
    by (simp add: k world0_def)
  from t [THEN conjunct2, THEN conjunct1, THEN mp, OF n]
  have 2: "run_item example_env (DNSRequestItem ''localhost:http'' [] 7) world0 =
       \<lparr>gai_calls = [(''localhost'', ''http''), (''localhost'', ''80'')],
          allocated = [1], freed = [1], run_queue = [],
          cb_log = [(7, Addresses (Inr example_addresses))]\<rparr>"
    unfolding example_lookup_http by (simp add: world0_def StatusOr_arg_def)
  from LookupHostname_schedules [of example_other_env 7 "''localhost:http''" "[]" 100 None
      "''8.8.8.8''" world0 world0, THEN conjunct2, THEN conjunct2, THEN conjunct1, THEN mp, OF o]
  have 3: "run_item example_other_env (DNSRequestItem ''localhost:http'' [] 7) world0 =
       world0\<lparr>cb_log := [(7, Addresses (Inr []))]\<rparr>"
    by (simp add: world0_def StatusOr_arg_def)
  from 1 2 3 show ?thesis
    by simp
qed

text \<open>
  C6, as the claim has it, fails. With another resolver installed, the closure that
  \<^verbatim>\<open>LookupHostname\<close> scheduled invokes \<^verbatim>\<open>on_done\<close> with that resolver's answer (here: no
  address), which is not the result of \<^verbatim>\<open>LookupHostnameBlocking\<close> on the same name and
  default port (here: two addresses).
\<close>

theorem LookupHostname_installed_resolver_counterexample:
  "snd (LookupHostname example_other_env 7 ''localhost:http'' [] 100 None [] world0) =
     world0\<lparr>run_queue := [DNSRequestItem ''localhost:http'' [] 7]\<rparr>
   \<and> fst (LookupHostnameBlocking example_other_env ''localhost:http'' [] world0) =
       Some (Inr example_addresses)
   \<and> cb_log (run_item example_other_env (DNSRequestItem ''localhost:http'' [] 7) world0) =
       [(7, Addresses (Inr []))]
   \<and> cb_log (run_item example_other_env (DNSRequestItem ''localhost:http'' [] 7) world0) \<noteq>
       [(7, StatusOr_arg
              (fst (LookupHostnameBlocking example_other_env ''localhost:http'' [] world0)))]"
proof -
  have 1: "snd (LookupHostname example_other_env 7 ''localhost:http'' [] 100 None [] world0) =
     world0\<lparr>run_queue := [DNSRequestItem ''localhost:http'' [] 7]\<rparr>"
    by (simp add: LookupHostname_def NativeDNSRequest_def Run_def world0_def)
  have 2: "fst (LookupHostnameBlocking example_other_env ''localhost:http'' [] world0) =
       Some (Inr example_addresses)"
    by (simp add: example_other_lookup_http example_lookup_http)
  have 3: "cb_log (run_item example_other_env (DNSRequestItem ''localhost:http'' [] 7) world0) =
       [(7, Addresses (Inr []))]"
    by (simp add: example_other_env_def DNSResolver_LookupHostnameBlocking_def invoke_def
        StatusOr_arg_def world0_def)
  have 4: "example_addresses \<noteq> []"
    by (simp add: example_addresses_def)
  from 1 2 3 4 show ?thesis
    by (simp add: StatusOr_arg_def)
qed

text \<open>
  C7. \<^verbatim>\<open>LookupSRV\<close> and \<^verbatim>\<open>LookupTXT\<close> return the handle \<open>(-1, -1)\<close> and change the world
  only by appending one closure to the event engine's queue: the callback has not been
  invoked and \<^verbatim>\<open>getaddrinfo\<close> has not been called when they return. The closure, run in
  any world, changes it only by invoking the callback once, with the
  \<^verbatim>\<open>UnimplementedError\<close> whose message names SRV or TXT records.
\<close>

theorem LookupSRV_LookupTXT_unsupported:
  "LookupSRV env on_resolved name timeout interested_parties name_server w =
     ((-1, -1), w\<lparr>run_queue := run_queue w @ [SRVItem on_resolved]\<rparr>)
   \<and> run_item env (SRVItem on_resolved) w' =
       w'\<lparr>cb_log := cb_log w' @
          [(on_resolved, Addresses (Inl
             \<lparr>code = kUnimplemented,
                message = ''The Native resolver does not support looking up SRV records'',
                str_props = Map.empty, int_props = Map.empty\<rparr>))]\<rparr>
   \<and> LookupTXT env on_resolved name timeout interested_parties name_server w =
     ((-1, -1), w\<lparr>run_queue := run_queue w @ [TXTItem on_resolved]\<rparr>)
   \<and> run_item env (TXTItem on_resolved) w' =
       w'\<lparr>cb_log := cb_log w' @
          [(on_resolved, Text (Inl
             \<lparr>code = kUnimplemented,
                message = ''The Native resolver does not support looking up TXT records'',
                str_props = Map.empty, int_props = Map.empty\<rparr>))]\<rparr>"
  by (simp add: LookupSRV_def LookupTXT_def Run_def invoke_def UnimplementedError_def)

theorem LookupSRV_LookupTXT_unsupported_witness:
  "LookupSRV example_env 3 ''_grpclb._tcp.localhost'' 100 None [] world0 =
     ((-1, -1), world0\<lparr>run_queue := [SRVItem 3]\<rparr>)
   \<and> cb_log (run_item example_env (TXTItem 3) world0) =
       [(3, Text (Inl \<lparr>code = kUnimplemented,
          message = ''The Native resolver does not support looking up TXT records'',
          str_props = Map.empty, int_props = Map.empty\<rparr>))]"
  using LookupSRV_LookupTXT_unsupported
    [of example_env 3 "''_grpclb._tcp.localhost''" 100 None "[]" world0 world0]
  by (simp add: world0_def)

subsection \<open>Cancellation\<close>

text \<open>
  C10. \<^verbatim>\<open>Cancel\<close> returns false for every handle, and so for the handles that
  \<^verbatim>\<open>LookupHostname\<close>, \<^verbatim>\<open>LookupSRV\<close> and \<^verbatim>\<open>LookupTXT\<close> return.
\<close>

theorem Cancel_false:
  "Cancel handle = False
   \<and> Cancel (fst (LookupHostname env on_done name default_port timeout interested_parties
        name_server w)) = False
   \<and> Cancel (fst (LookupSRV env on_resolved name timeout interested_parties name_server w)) = False
   \<and> Cancel (fst (LookupTXT env on_resolved name timeout interested_parties name_server w)) = False"
  by (simp add: Cancel_def)

theorem Cancel_false_witness:
  "Cancel (fst (LookupHostname example_env 7 ''localhost:http'' [] 100 None [] world0))
     = False
   \<and> Cancel (-1, -1) = False"
  using Cancel_false [of "(-1, -1)" example_env 7 "''localhost:http''" "[]" 100 None "[]" world0]
  by simp

end
